theory Spec2Isabelle
  imports Main
begin

section \<open>The TCP dialer \<open>tcpdial\<close> of \<open>src/tcp.c\<close>\<close>

text \<open>
  \<open>tcpdial\<close> is one C function that talks to the operating system through four calls:
  \<open>getprotobyname\<close>, \<open>socket\<close>, \<open>getaddrinfo\<close> and \<open>connect\<close>. The embedding passes the
  program state explicitly (the cell \<open>errno\<close>, the cell \<open>*conn\<close>, and a log of everything
  the function did), and takes what the operating system answers as a parameter.
  C's \<open>int\<close> is modelled as \<open>int\<close>: the function does no arithmetic, it only stores,
  compares and returns the values it is handed.
\<close>

subsection \<open>Data\<close>

text \<open>\<open>struct protoent\<close> of \<open>netdb.h\<close>; the function reads \<open>p_proto\<close> only.\<close>

record protoent =
  p_name :: string
  p_proto :: int

text \<open>\<open>struct sockaddr\<close>: an address family and the raw bytes of the address.\<close>

record sockaddr =
  sa_family :: int
  sa_data :: "nat list"

text \<open>
  \<open>struct addrinfo\<close> of \<open>netdb.h\<close>. The pointer \<open>ai_addr\<close> is an option (\<open>None\<close> is
  \<open>NULL\<close>); the chain through \<open>ai_next\<close> is the list that holds the nodes, with \<open>[]\<close>
  for \<open>NULL\<close>. \<open>ai_canonname\<close> is never read or written apart from the \<open>memset\<close>.
\<close>

record addrinfo =
  ai_flags :: int
  ai_family :: int
  ai_socktype :: int
  ai_protocol :: int
  ai_addrlen :: nat
  ai_addr :: "sockaddr option"

text \<open>
  The constants that the system headers supply (\<open>sys/socket.h\<close>, \<open>netdb.h\<close>,
  \<open>errno.h\<close>). They are not part of the repository, so they are a parameter.
\<close>

record platform =
  AF_UNSPEC :: int
  AF_INET :: int
  SOCK_STREAM :: int
  ENOPROTOOPT :: int
  ENETUNREACH :: int
  ENETDOWN :: int
  ENOMEM :: int
  EINVAL :: int
  ENOTCONN :: int
  EAI_AGAIN :: int
  EAI_FAIL :: int
  EAI_MEMORY :: int
  EAI_NONAME :: int
  EAI_SERVICE :: int

text \<open>
  What the operating system answers during one call of \<open>tcpdial\<close>:
  \<^item> \<open>protocols\<close>: the protocol database, \<open>None\<close> for a name without entry;
  \<^item> \<open>socket_answer domain type protocol\<close>: the return value of \<open>socket\<close> and the value
    it leaves in \<open>errno\<close> when that return value is \<open>-1\<close>;
  \<^item> \<open>resolver host port hints\<close>: the return value of \<open>getaddrinfo\<close> and the chain it
    stores through its last argument;
  \<^item> \<open>connect_answer n fd addr len\<close>: the return value of the \<open>connect\<close> call made after
    \<open>n\<close> earlier \<open>connect\<close> calls, and the value it leaves in \<open>errno\<close> when it fails.
    The answer may depend on \<open>n\<close>, since a socket that failed to connect need not
    behave like a fresh one.
\<close>

record os =
  protocols :: "string \<Rightarrow> protoent option"
  socket_answer :: "int \<Rightarrow> int \<Rightarrow> int \<Rightarrow> int \<times> int"
  resolver :: "string \<Rightarrow> string \<Rightarrow> addrinfo \<Rightarrow> int \<times> addrinfo list"
  connect_answer :: "nat \<Rightarrow> int \<Rightarrow> sockaddr option \<Rightarrow> nat \<Rightarrow> int \<times> int"

text \<open>
  The log. One event for each system call, with its arguments and its return value, and
  one for the store into \<open>*conn\<close>. \<open>tcp.c\<close> never calls \<open>close\<close>; the event \<open>Close\<close>
  exists so that statements about closing can be written down.
\<close>

datatype event =
    is_Getprotobyname: Getprotobyname string "protoent option"
  | is_Socket: Socket int int int int
  | is_Store_conn: Store_conn int
  | is_Getaddrinfo: Getaddrinfo string string addrinfo int "addrinfo list"
  | is_Connect: Connect int "sockaddr option" nat int
  | is_Close: Close int

record state =
  errno :: int
  conn :: int
  trace :: "event list"

text \<open>The state at function entry: the caller's \<open>errno\<close> and \<open>*conn\<close>, nothing logged.\<close>

definition entry :: "int \<Rightarrow> int \<Rightarrow> state" where
  "entry e c = \<lparr>errno = e, conn = c, trace = []\<rparr>"

subsection \<open>The system calls\<close>

definition log :: "event \<Rightarrow> state \<Rightarrow> state" where
  "log ev s = s\<lparr>trace := trace s @ [ev]\<rparr>"

definition getprotobyname :: "os \<Rightarrow> state \<Rightarrow> string \<Rightarrow> protoent option \<times> state" where
  "getprotobyname os s name =
     (let r = protocols os name in (r, log (Getprotobyname name r) s))"

definition socket :: "os \<Rightarrow> state \<Rightarrow> int \<Rightarrow> int \<Rightarrow> int \<Rightarrow> int \<times> state" where
  "socket os s domain type protocol =
     (let (r, e) = socket_answer os domain type protocol
      in (r, log (Socket domain type protocol r) (if r = -1 then s\<lparr>errno := e\<rparr> else s)))"

definition getaddrinfo ::
  "os \<Rightarrow> state \<Rightarrow> string \<Rightarrow> string \<Rightarrow> addrinfo \<Rightarrow> int \<times> addrinfo list \<times> state" where
  "getaddrinfo os s node service hints =
     (let (r, res) = resolver os node service hints
      in (r, res, log (Getaddrinfo node service hints r res) s))"

text \<open>The number of \<open>connect\<close> calls made so far.\<close>

definition connects :: "state \<Rightarrow> nat" where
  "connects s = length (filter is_Connect (trace s))"

definition connect :: "os \<Rightarrow> state \<Rightarrow> int \<Rightarrow> sockaddr option \<Rightarrow> nat \<Rightarrow> int \<times> state" where
  "connect os s fd addr len =
     (let (r, e) = connect_answer os (connects s) fd addr len
      in (r, log (Connect fd addr len r) (if r \<noteq> 0 then s\<lparr>errno := e\<rparr> else s)))"

subsection \<open>\<open>tcpdial\<close>\<close>

text \<open>
  Lines 103 to 107: \<open>memset\<close> zeroes the hints, then three fields are assigned.
\<close>

definition tcphints :: "platform \<Rightarrow> protoent \<Rightarrow> addrinfo" where
  "tcphints pf tcpproto =
     \<lparr>ai_flags = 0, ai_family = AF_UNSPEC pf, ai_socktype = SOCK_STREAM pf,
      ai_protocol = p_proto tcpproto, ai_addrlen = 0, ai_addr = None\<rparr>"

text \<open>
  Lines 110 to 126: the \<open>switch\<close> on the resolver's failure code, its case labels in
  source order; the value is what \<open>errno\<close> holds after the \<open>switch\<close>.
\<close>

definition eai_switch :: "platform \<Rightarrow> int \<Rightarrow> int" where
  "eai_switch pf e =
     (if e = EAI_AGAIN pf then ENETUNREACH pf
      else if e = EAI_FAIL pf then ENETDOWN pf
      else if e = EAI_MEMORY pf then ENOMEM pf
      else if e = EAI_NONAME pf \<or> e = EAI_SERVICE pf then EINVAL pf
      else e)"

text \<open>
  Lines 131 to 140: the loop over the chain. The result is the final value of \<open>addri\<close>:
  the rest of the chain from the node that connected, or \<open>[]\<close> (\<open>NULL\<close>) when the
  chain is used up.
\<close>

fun connect_loop :: "os \<Rightarrow> state \<Rightarrow> addrinfo list \<Rightarrow> addrinfo list \<times> state" where
  "connect_loop os s [] = ([], s)"
| "connect_loop os s (addri # next) =
     (let (retcon, s') = connect os s (conn s) (ai_addr addri) (ai_addrlen addri)
      in if retcon \<noteq> 0 then connect_loop os s' next else (addri # next, s'))"

text \<open>Lines 86 to 147. The result is the return value and the state at return.\<close>

definition tcpdial :: "platform \<Rightarrow> os \<Rightarrow> state \<Rightarrow> string \<Rightarrow> string \<Rightarrow> int \<times> state" where
  "tcpdial pf os s0 host port =
     (let (tcpproto, s1) = getprotobyname os s0 ''tcp'' in
      case tcpproto of
        None \<Rightarrow> (ENOPROTOOPT pf, s1\<lparr>errno := ENOPROTOOPT pf\<rparr>)
      | Some pe \<Rightarrow>
          let (fd, s2) = socket os s1 (AF_INET pf) (SOCK_STREAM pf) (p_proto pe);
              s3 = log (Store_conn fd) (s2\<lparr>conn := fd\<rparr>)
          in if conn s3 = -1 then (errno s3, s3)
             else
               let (r, tcpsockaddr, s4) = getaddrinfo os s3 host port (tcphints pf pe);
                   s5 = s4\<lparr>errno := r\<rparr>
               in if errno s5 \<noteq> 0
                  then let s6 = s5\<lparr>errno := eai_switch pf (errno s5)\<rparr> in (errno s6, s6)
                  else
                    let (addri, s7) = connect_loop os s5 tcpsockaddr
                    in if addri = [] then (ENOTCONN pf, s7\<lparr>errno := ENOTCONN pf\<rparr>)
                       else (0, s7))"

subsection \<open>Vocabulary of the statements\<close>

text \<open>
  Candidate \<open>a\<close> accepts when the \<open>connect\<close> call on it, made on descriptor \<open>fd\<close> after
  \<open>n\<close> earlier attempts, returns 0. \<open>attempt\<close> is the event that this call logs.
\<close>

definition accepts :: "os \<Rightarrow> int \<Rightarrow> nat \<Rightarrow> addrinfo \<Rightarrow> bool" where
  "accepts os fd n a = (fst (connect_answer os n fd (ai_addr a) (ai_addrlen a)) = 0)"

fun attempt :: "os \<Rightarrow> int \<Rightarrow> nat \<times> addrinfo \<Rightarrow> event" where
  "attempt os fd (n, a) =
     Connect fd (ai_addr a) (ai_addrlen a)
       (fst (connect_answer os n fd (ai_addr a) (ai_addrlen a)))"

text \<open>A \<open>connect\<close> call that returned 0: the socket is connected.\<close>

fun established :: "event \<Rightarrow> bool" where
  "established (Connect fd addr len r) = (r = 0)"
| "established _ = False"

text \<open>The descriptor a \<open>connect\<close> call was made on.\<close>

fun on_fd :: "int \<Rightarrow> event \<Rightarrow> bool" where
  "on_fd fd (Connect fd' addr len r) = (fd' = fd)"
| "on_fd fd _ = False"

text \<open>
  The log up to the store into \<open>*conn\<close>, and the state in which the loop starts when
  the resolver has returned 0.
\<close>

definition prologue :: "platform \<Rightarrow> protoent \<Rightarrow> int \<Rightarrow> event list" where
  "prologue pf pe fd =
     [Getprotobyname ''tcp'' (Some pe),
      Socket (AF_INET pf) (SOCK_STREAM pf) (p_proto pe) fd,
      Store_conn fd]"

definition resolved ::
  "platform \<Rightarrow> protoent \<Rightarrow> int \<Rightarrow> string \<Rightarrow> string \<Rightarrow> addrinfo list \<Rightarrow> state" where
  "resolved pf pe fd host port cands =
     \<lparr>errno = 0, conn = fd,
      trace = prologue pf pe fd @ [Getaddrinfo host port (tcphints pf pe) 0 cands]\<rparr>"

subsection \<open>A concrete platform and concrete hosts\<close>

text \<open>The values of Linux with glibc, and \<open>AF_INET6 = 10\<close> in the first candidate.\<close>

definition linux :: platform where
  "linux =
     \<lparr>AF_UNSPEC = 0, AF_INET = 2, SOCK_STREAM = 1,
      ENOPROTOOPT = 92, ENETUNREACH = 101, ENETDOWN = 100, ENOMEM = 12, EINVAL = 22,
      ENOTCONN = 107,
      EAI_AGAIN = -3, EAI_FAIL = -4, EAI_MEMORY = -10, EAI_NONAME = -2, EAI_SERVICE = -8\<rparr>"

definition tcp_entry :: protoent where
  "tcp_entry = \<lparr>p_name = ''tcp'', p_proto = 6\<rparr>"

definition addr6 :: addrinfo where
  "addr6 =
     \<lparr>ai_flags = 0, ai_family = 10, ai_socktype = 1, ai_protocol = 6, ai_addrlen = 28,
      ai_addr = Some \<lparr>sa_family = 10,
        sa_data = [35, 130, 0, 0, 0, 0, 0, 0, 0, 0, 0, 0, 0, 0, 0, 0, 0, 0, 0, 0, 0, 1,
                   0, 0, 0, 0]\<rparr>\<rparr>"

definition addr4 :: addrinfo where
  "addr4 =
     \<lparr>ai_flags = 0, ai_family = 2, ai_socktype = 1, ai_protocol = 6, ai_addrlen = 16,
      ai_addr = Some \<lparr>sa_family = 2,
        sa_data = [35, 130, 127, 0, 0, 1, 0, 0, 0, 0, 0, 0, 0, 0]\<rparr>\<rparr>"

text \<open>
  A host where \<open>localhost:9090\<close> resolves to \<open>::1\<close> and then \<open>127.0.0.1\<close>, only the second
  accepts, and every other name is unknown (\<open>EAI_NONAME\<close>).
\<close>

definition localhost_os :: os where
  "localhost_os =
     \<lparr>protocols = (\<lambda>name. if name = ''tcp'' then Some tcp_entry else None),
      socket_answer = (\<lambda>domain type protocol. (3, 0)),
      resolver = (\<lambda>node service hints.
        if node = ''localhost'' \<and> service = ''9090'' then (0, [addr6, addr4]) else (-2, [])),
      connect_answer = (\<lambda>n fd addr len. if addr = ai_addr addr4 then (0, 0) else (-1, 97))\<rparr>"

text \<open>The same host with nothing listening, with an empty protocol database, and with
  \<open>socket\<close> refused (\<open>EACCES\<close>).\<close>

definition refusing_os :: os where
  "refusing_os = localhost_os\<lparr>connect_answer := (\<lambda>n fd addr len. (-1, 111))\<rparr>"

definition no_protocols_os :: os where
  "no_protocols_os = localhost_os\<lparr>protocols := (\<lambda>name. None)\<rparr>"

definition no_socket_os :: os where
  "no_socket_os = localhost_os\<lparr>socket_answer := (\<lambda>domain type protocol. (-1, 13))\<rparr>"

section \<open>Properties\<close>

subsection \<open>The connect loop\<close>

lemma connect_fail:
  "\<not> accepts os fd (connects s) a \<Longrightarrow>
   \<exists>s'. connect os s fd (ai_addr a) (ai_addrlen a) =
          (fst (connect_answer os (connects s) fd (ai_addr a) (ai_addrlen a)), s')
      \<and> conn s' = conn s \<and> trace s' = trace s @ [attempt os fd (connects s, a)]
      \<and> connects s' = Suc (connects s)"
  by (simp add: connect_def accepts_def connects_def log_def split: prod.splits)

lemma connect_ok:
  "accepts os fd (connects s) a \<Longrightarrow>
   connect os s fd (ai_addr a) (ai_addrlen a) =
     (0, s\<lparr>trace := trace s @ [attempt os fd (connects s, a)]\<rparr>)"
  by (auto simp add: connect_def accepts_def connects_def log_def split: prod.splits)

lemma loop_all_fail:
  "\<forall>i<length cands. \<not> accepts os (conn s) (connects s + i) (cands ! i) \<Longrightarrow>
   fst (connect_loop os s cands) = [] \<and>
   conn (snd (connect_loop os s cands)) = conn s \<and>
   trace (snd (connect_loop os s cands)) =
     trace s @ map (attempt os (conn s)) (enumerate (connects s) cands)"
proof (induction cands arbitrary: s)
  case Nil
  then show ?case by simp
next
  case (Cons a as)
  from Cons.prems have a: "\<not> accepts os (conn s) (connects s) a" by force
  from connect_fail[OF a] obtain s' r where
    c: "connect os s (conn s) (ai_addr a) (ai_addrlen a) = (r, s')"
       "r = fst (connect_answer os (connects s) (conn s) (ai_addr a) (ai_addrlen a))"
    and s': "conn s' = conn s" "trace s' = trace s @ [attempt os (conn s) (connects s, a)]"
       "connects s' = Suc (connects s)"
    by blast
  from a c(2) have r: "r \<noteq> 0" by (simp add: accepts_def)
  have "\<forall>i<length as. \<not> accepts os (conn s') (connects s' + i) (as ! i)"
    using Cons.prems s' by force
  from Cons.IH[OF this] show ?case using c(1) r s' by simp
qed

lemma loop_first_accept:
  "k < length cands \<Longrightarrow> accepts os (conn s) (connects s + k) (cands ! k) \<Longrightarrow>
   \<forall>i<k. \<not> accepts os (conn s) (connects s + i) (cands ! i) \<Longrightarrow>
   fst (connect_loop os s cands) = drop k cands \<and>
   conn (snd (connect_loop os s cands)) = conn s \<and>
   trace (snd (connect_loop os s cands)) =
     trace s @ map (attempt os (conn s)) (take (Suc k) (enumerate (connects s) cands))"
proof (induction cands arbitrary: s k)
  case Nil
  then show ?case by simp
next
  case (Cons a as)
  show ?case
  proof (cases k)
    case 0
    with Cons.prems have "accepts os (conn s) (connects s) a" by simp
    from connect_ok[OF this] show ?thesis using 0 by simp
  next
    case (Suc j)
    from Cons.prems Suc have a: "\<not> accepts os (conn s) (connects s) a" by force
    from connect_fail[OF a] obtain s' r where
      c: "connect os s (conn s) (ai_addr a) (ai_addrlen a) = (r, s')"
         "r = fst (connect_answer os (connects s) (conn s) (ai_addr a) (ai_addrlen a))"
      and s': "conn s' = conn s" "trace s' = trace s @ [attempt os (conn s) (connects s, a)]"
         "connects s' = Suc (connects s)"
      by blast
    from a c(2) have r: "r \<noteq> 0" by (simp add: accepts_def)
    have 1: "j < length as" using Cons.prems Suc by simp
    have 2: "accepts os (conn s') (connects s' + j) (as ! j)" using Cons.prems Suc s' by simp
    have 3: "\<forall>i<j. \<not> accepts os (conn s') (connects s' + i) (as ! i)"
      using Cons.prems(3) Suc s' by force
    from Cons.IH[OF 1 2 3] show ?thesis using c(1) r s' Suc by simp
  qed
qed

lemma first_or_none:
  fixes P :: "nat \<Rightarrow> bool"
  shows "(\<forall>i<n. \<not> P i) \<or> (\<exists>k<n. P k \<and> (\<forall>i<k. \<not> P i))"
proof (cases "\<exists>i<n. P i")
  case False
  then show ?thesis by blast
next
  case True
  then obtain i where i: "i < n" "P i" by blast
  define k where "k = (LEAST j. P j)"
  have "P k" unfolding k_def using i(2) by (rule LeastI)
  moreover have "k \<le> i" unfolding k_def using i(2) by (rule Least_le)
  moreover have "\<forall>j<k. \<not> P j" unfolding k_def using not_less_Least by blast
  ultimately show ?thesis using i(1) by (meson le_less_trans)
qed

subsection \<open>The paths through \<open>tcpdial\<close>\<close>

lemma path_no_protocol:
  "protocols os ''tcp'' = None \<Longrightarrow>
   tcpdial pf os (entry e c) host port =
     (ENOPROTOOPT pf,
      \<lparr>errno = ENOPROTOOPT pf, conn = c, trace = [Getprotobyname ''tcp'' None]\<rparr>)"
  by (simp add: tcpdial_def getprotobyname_def log_def entry_def Let_def)

lemma path_socket_fails:
  "protocols os ''tcp'' = Some pe \<Longrightarrow>
   socket_answer os (AF_INET pf) (SOCK_STREAM pf) (p_proto pe) = (-1, e') \<Longrightarrow>
   tcpdial pf os (entry e c) host port =
     (e', \<lparr>errno = e', conn = -1, trace = prologue pf pe (-1)\<rparr>)"
  by (simp add: tcpdial_def getprotobyname_def socket_def log_def entry_def prologue_def
      Let_def)

lemma path_resolver_fails:
  "protocols os ''tcp'' = Some pe \<Longrightarrow>
   socket_answer os (AF_INET pf) (SOCK_STREAM pf) (p_proto pe) = (fd, e') \<Longrightarrow>
   fd \<noteq> -1 \<Longrightarrow>
   resolver os host port (tcphints pf pe) = (r, res) \<Longrightarrow>
   r \<noteq> 0 \<Longrightarrow>
   tcpdial pf os (entry e c) host port =
     (eai_switch pf r,
      \<lparr>errno = eai_switch pf r, conn = fd,
       trace = prologue pf pe fd @ [Getaddrinfo host port (tcphints pf pe) r res]\<rparr>)"
  by (simp add: tcpdial_def getprotobyname_def socket_def getaddrinfo_def log_def entry_def
      prologue_def Let_def)

lemma path_resolved:
  "protocols os ''tcp'' = Some pe \<Longrightarrow>
   socket_answer os (AF_INET pf) (SOCK_STREAM pf) (p_proto pe) = (fd, e') \<Longrightarrow>
   fd \<noteq> -1 \<Longrightarrow>
   resolver os host port (tcphints pf pe) = (0, cands) \<Longrightarrow>
   tcpdial pf os (entry e c) host port =
     (if fst (connect_loop os (resolved pf pe fd host port cands) cands) = []
      then (ENOTCONN pf,
            (snd (connect_loop os (resolved pf pe fd host port cands) cands))
              \<lparr>errno := ENOTCONN pf\<rparr>)
      else (0, snd (connect_loop os (resolved pf pe fd host port cands) cands)))"
  by (simp add: tcpdial_def getprotobyname_def socket_def getaddrinfo_def log_def entry_def
      prologue_def resolved_def Let_def split: prod.splits)

lemma resolved_simps:
  "conn (resolved pf pe fd host port cands) = fd"
  "connects (resolved pf pe fd host port cands) = 0"
  "trace (resolved pf pe fd host port cands) =
     prologue pf pe fd @ [Getaddrinfo host port (tcphints pf pe) 0 cands]"
  by (simp_all add: resolved_def connects_def prologue_def)

lemma path_all_fail:
  assumes "protocols os ''tcp'' = Some pe"
    and "socket_answer os (AF_INET pf) (SOCK_STREAM pf) (p_proto pe) = (fd, e')"
    and "fd \<noteq> -1"
    and "resolver os host port (tcphints pf pe) = (0, cands)"
    and "\<forall>i<length cands. \<not> accepts os fd i (cands ! i)"
  shows "tcpdial pf os (entry e c) host port =
     (ENOTCONN pf,
      \<lparr>errno = ENOTCONN pf, conn = fd,
       trace = prologue pf pe fd @ Getaddrinfo host port (tcphints pf pe) 0 cands
                 # map (attempt os fd) (enumerate 0 cands)\<rparr>)"
proof -
  let ?s = "resolved pf pe fd host port cands"
  have "\<forall>i<length cands. \<not> accepts os (conn ?s) (connects ?s + i) (cands ! i)"
    using assms(5) by (simp add: resolved_simps)
  from loop_all_fail[OF this]
  have l: "fst (connect_loop os ?s cands) = []"
    "conn (snd (connect_loop os ?s cands)) = fd"
    "trace (snd (connect_loop os ?s cands)) =
       prologue pf pe fd @ Getaddrinfo host port (tcphints pf pe) 0 cands
         # map (attempt os fd) (enumerate 0 cands)"
    by (simp_all add: resolved_simps)
  show ?thesis
    using l by (simp add: path_resolved[OF assms(1-4)])
qed

lemma path_accepted:
  assumes "protocols os ''tcp'' = Some pe"
    and "socket_answer os (AF_INET pf) (SOCK_STREAM pf) (p_proto pe) = (fd, e')"
    and "fd \<noteq> -1"
    and "resolver os host port (tcphints pf pe) = (0, cands)"
    and "k < length cands"
    and "accepts os fd k (cands ! k)"
    and "\<forall>i<k. \<not> accepts os fd i (cands ! i)"
  shows "fst (tcpdial pf os (entry e c) host port) = 0"
    and "conn (snd (tcpdial pf os (entry e c) host port)) = fd"
    and "trace (snd (tcpdial pf os (entry e c) host port)) =
           prologue pf pe fd @ Getaddrinfo host port (tcphints pf pe) 0 cands
             # map (attempt os fd) (take (Suc k) (enumerate 0 cands))"
proof -
  let ?s = "resolved pf pe fd host port cands"
  have 1: "accepts os (conn ?s) (connects ?s + k) (cands ! k)"
    using assms(6) by (simp add: resolved_simps)
  have 2: "\<forall>i<k. \<not> accepts os (conn ?s) (connects ?s + i) (cands ! i)"
    using assms(7) by (simp add: resolved_simps)
  from loop_first_accept[OF assms(5) 1 2]
  have l: "fst (connect_loop os ?s cands) = drop k cands"
    "conn (snd (connect_loop os ?s cands)) = fd"
    "trace (snd (connect_loop os ?s cands)) =
       prologue pf pe fd @ Getaddrinfo host port (tcphints pf pe) 0 cands
         # map (attempt os fd) (take (Suc k) (enumerate 0 cands))"
    by (simp_all add: resolved_simps)
  have ne: "drop k cands \<noteq> []" using assms(5) by simp
  note p = path_resolved[OF assms(1-4), of e c]
  show "fst (tcpdial pf os (entry e c) host port) = 0" using l ne by (simp add: p)
  show "conn (snd (tcpdial pf os (entry e c) host port)) = fd" using l ne by (simp add: p)
  show "trace (snd (tcpdial pf os (entry e c) host port)) =
           prologue pf pe fd @ Getaddrinfo host port (tcphints pf pe) 0 cands
             # map (attempt os fd) (take (Suc k) (enumerate 0 cands))"
    using l ne by (simp add: p)
qed

text \<open>Every call takes exactly one of five paths.\<close>

lemma tcpdial_cases [case_names no_protocol socket_fails resolver_fails all_fail accepted]:
  obtains
    "protocols os ''tcp'' = None"
  | pe e' where "protocols os ''tcp'' = Some pe"
      "socket_answer os (AF_INET pf) (SOCK_STREAM pf) (p_proto pe) = (-1, e')"
  | pe fd e' r res where "protocols os ''tcp'' = Some pe"
      "socket_answer os (AF_INET pf) (SOCK_STREAM pf) (p_proto pe) = (fd, e')" "fd \<noteq> -1"
      "resolver os host port (tcphints pf pe) = (r, res)" "r \<noteq> 0"
  | pe fd e' cands where "protocols os ''tcp'' = Some pe"
      "socket_answer os (AF_INET pf) (SOCK_STREAM pf) (p_proto pe) = (fd, e')" "fd \<noteq> -1"
      "resolver os host port (tcphints pf pe) = (0, cands)"
      "\<forall>i<length cands. \<not> accepts os fd i (cands ! i)"
  | pe fd e' cands k where "protocols os ''tcp'' = Some pe"
      "socket_answer os (AF_INET pf) (SOCK_STREAM pf) (p_proto pe) = (fd, e')" "fd \<noteq> -1"
      "resolver os host port (tcphints pf pe) = (0, cands)"
      "k < length cands" "accepts os fd k (cands ! k)"
      "\<forall>i<k. \<not> accepts os fd i (cands ! i)"
proof (cases "protocols os ''tcp''")
  case None
  then show ?thesis using that(1) by blast
next
  case (Some pe)
  obtain fd e' where sk: "socket_answer os (AF_INET pf) (SOCK_STREAM pf) (p_proto pe) = (fd, e')"
    by (cases "socket_answer os (AF_INET pf) (SOCK_STREAM pf) (p_proto pe)")
  show ?thesis
  proof (cases "fd = -1")
    case True
    then show ?thesis using that(2) Some sk by blast
  next
    case fd: False
    obtain r res where rs: "resolver os host port (tcphints pf pe) = (r, res)"
      by (cases "resolver os host port (tcphints pf pe)")
    show ?thesis
    proof (cases "r = 0")
      case False
      then show ?thesis using that(3) Some sk fd rs by blast
    next
      case True
      from first_or_none[of "length res" "\<lambda>i. accepts os fd i (res ! i)"]
      show ?thesis
      proof
        assume "\<forall>i<length res. \<not> accepts os fd i (res ! i)"
        then show ?thesis using that(4) Some sk fd rs True by blast
      next
        assume "\<exists>k<length res. accepts os fd k (res ! k) \<and> (\<forall>i<k. \<not> accepts os fd i (res ! i))"
        then show ?thesis using that(5) Some sk fd rs True by blast
      qed
    qed
  qed
qed

lemma attempt_kind [simp]:
  "is_Connect (attempt os fd x)"
  "\<not> is_Socket (attempt os fd x)"
  "\<not> is_Close (attempt os fd x)"
  "\<not> is_Store_conn (attempt os fd x)"
  "\<not> is_Getaddrinfo (attempt os fd x)"
  "\<not> is_Getprotobyname (attempt os fd x)"
  "on_fd fd' (attempt os fd x) = (fd = fd')"
  by (cases x; simp)+

lemma filter_attempts [simp]:
  "filter is_Connect (map (attempt os fd) xs) = map (attempt os fd) xs"
  "filter is_Socket (map (attempt os fd) xs) = []"
  "filter is_Getaddrinfo (map (attempt os fd) xs) = []"
  by (induction xs) simp_all

text \<open>
  The whole log of a call that found the protocol entry: the prologue, then (unless
  \<open>socket\<close> returned \<open>-1\<close>) the resolver call, then (when the resolver returned 0) the
  attempts on the first \<open>j\<close> candidates, where the loop has stopped at the end of the
  chain or at a candidate that accepted.
\<close>

lemma tcpdial_trace:
  assumes "protocols os ''tcp'' = Some pe"
    and "socket_answer os (AF_INET pf) (SOCK_STREAM pf) (p_proto pe) = (fd, e')"
    and "resolver os host port (tcphints pf pe) = (r, res)"
  obtains j where "j \<le> length res"
    and "trace (snd (tcpdial pf os (entry e c) host port)) =
           prologue pf pe fd @
           (if fd = -1 then []
            else Getaddrinfo host port (tcphints pf pe) r res #
                 (if r = 0 then map (attempt os fd) (take j (enumerate 0 res)) else []))"
    and "conn (snd (tcpdial pf os (entry e c) host port)) = fd"
    and "fd \<noteq> -1 \<and> r = 0 \<longrightarrow>
           j = length res \<or> 0 < j \<and> accepts os fd (j - 1) (res ! (j - 1))"
proof (cases "fd = -1")
  case True
  with assms(2) have "socket_answer os (AF_INET pf) (SOCK_STREAM pf) (p_proto pe) = (-1, e')"
    by simp
  from path_socket_fails[OF assms(1) this, of e c host port] True
  show ?thesis using that[of 0] by simp
next
  case fd: False
  show ?thesis
  proof (cases "r = 0")
    case False
    from path_resolver_fails[OF assms(1,2) fd assms(3) False, of e c] fd False
    show ?thesis using that[of 0] by simp
  next
    case True
    with assms(3) have rs: "resolver os host port (tcphints pf pe) = (0, res)" by simp
    from first_or_none[of "length res" "\<lambda>i. accepts os fd i (res ! i)"]
    show ?thesis
    proof
      assume "\<forall>i<length res. \<not> accepts os fd i (res ! i)"
      from path_all_fail[OF assms(1,2) fd rs this, of e c] fd True
      show ?thesis using that[of "length res"] by simp
    next
      assume "\<exists>k<length res. accepts os fd k (res ! k) \<and> (\<forall>i<k. \<not> accepts os fd i (res ! i))"
      then obtain k where k: "k < length res" "accepts os fd k (res ! k)"
        "\<forall>i<k. \<not> accepts os fd i (res ! i)" by blast
      from path_accepted[OF assms(1,2) fd rs k, of e c] fd True k(1,2)
      show ?thesis using that[of "Suc k"] by simp
    qed
  qed
qed

lemma none_established:
  assumes "\<forall>i<length cands. \<not> accepts os fd i (cands ! i)"
  shows "\<forall>ev\<in>set (map (attempt os fd) (enumerate 0 cands)). \<not> established ev"
proof
  fix ev assume "ev \<in> set (map (attempt os fd) (enumerate 0 cands))"
  then obtain n a where na: "(n, a) \<in> set (enumerate 0 cands)" "ev = attempt os fd (n, a)"
    by auto
  from na(1) have "n < length cands" "cands ! n = a"
    by (simp_all add: in_set_enumerate_eq)
  with assms have "\<not> accepts os fd n a" by blast
  with na(2) show "\<not> established ev" by (simp add: accepts_def)
qed

lemma last_established:
  assumes "k < length cands"
  shows "attempt os fd (k, cands ! k)
           \<in> set (map (attempt os fd) (take (Suc k) (enumerate 0 cands)))"
proof -
  have "take (Suc k) (enumerate 0 cands) ! k = (k, cands ! k)"
    using assms by (simp add: nth_enumerate_eq)
  moreover have "k < length (take (Suc k) (enumerate 0 cands))"
    using assms by simp
  ultimately have "(k, cands ! k) \<in> set (take (Suc k) (enumerate 0 cands))"
    by (metis nth_mem)
  then show ?thesis unfolding set_map by (rule imageI)
qed

subsection \<open>Claims\<close>

text \<open>
  C6. When the protocol database has no entry for \<open>tcp\<close>, \<open>tcpdial\<close> returns
  \<open>ENOPROTOOPT\<close> with \<open>errno\<close> set to \<open>ENOPROTOOPT\<close>, and the protocol lookup is the
  only thing it has done: no socket was created and no resolution was attempted.
\<close>

theorem tcpdial_protocol_unavailable:
  assumes "protocols os ''tcp'' = None"
  shows "tcpdial pf os (entry e c) host port =
     (ENOPROTOOPT pf,
      \<lparr>errno = ENOPROTOOPT pf, conn = c, trace = [Getprotobyname ''tcp'' None]\<rparr>)"
  using assms by (rule path_no_protocol)

theorem tcpdial_protocol_unavailable_witness:
  "protocols no_protocols_os ''tcp'' = None \<and>
   tcpdial linux no_protocols_os (entry 0 7) ''localhost'' ''9090'' =
     (92, \<lparr>errno = 92, conn = 7, trace = [Getprotobyname ''tcp'' None]\<rparr>)"
proof -
  have h: "protocols no_protocols_os ''tcp'' = None"
    by (simp add: no_protocols_os_def)
  from tcpdial_protocol_unavailable[OF h, of linux 0 7 "''localhost''" "''9090''"]
  show ?thesis using h by (simp add: linux_def)
qed

text \<open>
  C1. When the protocol lookup and the socket creation succeed, the resolver returns 0
  with a chain in which some candidate accepts, then there is a first accepting
  candidate \<open>k\<close>; the \<open>connect\<close> calls of the run are exactly the attempts on candidates
  \<open>0, \<dots>, k\<close> in resolution order, all on the created descriptor (so the failing ones
  before \<open>k\<close> are skipped and nothing after \<open>k\<close> is tried), and the function returns 0.
\<close>

theorem tcpdial_connects_first_accepting:
  assumes "protocols os ''tcp'' = Some pe"
    and "socket_answer os (AF_INET pf) (SOCK_STREAM pf) (p_proto pe) = (fd, e')"
    and "fd \<noteq> -1"
    and "resolver os host port (tcphints pf pe) = (0, cands)"
    and "\<exists>i<length cands. accepts os fd i (cands ! i)"
  shows "\<exists>k<length cands.
           accepts os fd k (cands ! k) \<and> (\<forall>i<k. \<not> accepts os fd i (cands ! i)) \<and>
           filter is_Connect (trace (snd (tcpdial pf os (entry e c) host port))) =
             map (attempt os fd) (take (Suc k) (enumerate 0 cands)) \<and>
           fst (tcpdial pf os (entry e c) host port) = 0"
proof -
  from first_or_none[of "length cands" "\<lambda>i. accepts os fd i (cands ! i)"] assms(5)
  obtain k where k: "k < length cands" "accepts os fd k (cands ! k)"
    "\<forall>i<k. \<not> accepts os fd i (cands ! i)"
    by blast
  note p = path_accepted[OF assms(1-4) k, of e c]
  have "filter is_Connect (trace (snd (tcpdial pf os (entry e c) host port))) =
          map (attempt os fd) (take (Suc k) (enumerate 0 cands))"
    by (simp add: p(3) prologue_def)
  with k p(1) show ?thesis by blast
qed

theorem tcpdial_connects_first_accepting_witness:
  "protocols localhost_os ''tcp'' = Some tcp_entry \<and>
   socket_answer localhost_os (AF_INET linux) (SOCK_STREAM linux) (p_proto tcp_entry) = (3, 0) \<and>
   (3::int) \<noteq> -1 \<and>
   resolver localhost_os ''localhost'' ''9090'' (tcphints linux tcp_entry) = (0, [addr6, addr4]) \<and>
   (\<exists>i<length [addr6, addr4]. accepts localhost_os 3 i ([addr6, addr4] ! i)) \<and>
   filter is_Connect (trace (snd (tcpdial linux localhost_os (entry 0 7) ''localhost'' ''9090''))) =
     [Connect 3 (ai_addr addr6) 28 (-1), Connect 3 (ai_addr addr4) 16 0] \<and>
   fst (tcpdial linux localhost_os (entry 0 7) ''localhost'' ''9090'') = 0"
proof -
  have h1: "protocols localhost_os ''tcp'' = Some tcp_entry"
    by (simp add: localhost_os_def)
  have h2: "socket_answer localhost_os (AF_INET linux) (SOCK_STREAM linux) (p_proto tcp_entry)
              = (3, 0)"
    by (simp add: localhost_os_def)
  have h3: "(3::int) \<noteq> -1" by simp
  have h4: "resolver localhost_os ''localhost'' ''9090'' (tcphints linux tcp_entry)
              = (0, [addr6, addr4])"
    by (simp add: localhost_os_def)
  have a0: "\<not> accepts localhost_os 3 0 addr6"
    by (simp add: accepts_def localhost_os_def addr6_def addr4_def)
  have a1: "accepts localhost_os 3 1 addr4"
    by (simp add: accepts_def localhost_os_def)
  have h5: "\<exists>i<length [addr6, addr4]. accepts localhost_os 3 i ([addr6, addr4] ! i)"
    using a1 by (intro exI[of _ 1]) simp
  from tcpdial_connects_first_accepting[OF h1 h2 h3 h4 h5, of 0 7]
  obtain k where k: "k < length [addr6, addr4]"
    "accepts localhost_os 3 k ([addr6, addr4] ! k)"
    "filter is_Connect (trace (snd (tcpdial linux localhost_os (entry 0 7) ''localhost'' ''9090'')))
       = map (attempt localhost_os 3) (take (Suc k) (enumerate 0 [addr6, addr4]))"
    "fst (tcpdial linux localhost_os (entry 0 7) ''localhost'' ''9090'') = 0"
    by blast
  from k(1,2) a0 have "k = 1" by (cases k) auto
  with k(3) have "filter is_Connect
      (trace (snd (tcpdial linux localhost_os (entry 0 7) ''localhost'' ''9090''))) =
     [Connect 3 (ai_addr addr6) 28 (-1), Connect 3 (ai_addr addr4) 16 0]"
    by (simp add: localhost_os_def addr6_def addr4_def)
  with h1 h2 h3 h4 h5 k(4) show ?thesis by blast
qed

text \<open>
  C2. When the protocol lookup and the socket creation succeed, the resolver returns 0
  and no candidate of its chain accepts (an empty chain included), \<open>tcpdial\<close> has tried
  every candidate, returns \<open>ENOTCONN\<close> and leaves \<open>ENOTCONN\<close> in \<open>errno\<close>.
\<close>

theorem tcpdial_not_connected:
  assumes "protocols os ''tcp'' = Some pe"
    and "socket_answer os (AF_INET pf) (SOCK_STREAM pf) (p_proto pe) = (fd, e')"
    and "fd \<noteq> -1"
    and "resolver os host port (tcphints pf pe) = (0, cands)"
    and "\<forall>i<length cands. \<not> accepts os fd i (cands ! i)"
  shows "fst (tcpdial pf os (entry e c) host port) = ENOTCONN pf \<and>
         errno (snd (tcpdial pf os (entry e c) host port)) = ENOTCONN pf \<and>
         filter is_Connect (trace (snd (tcpdial pf os (entry e c) host port))) =
           map (attempt os fd) (enumerate 0 cands)"
  by (simp add: path_all_fail[OF assms] prologue_def)

theorem tcpdial_not_connected_witness:
  "protocols refusing_os ''tcp'' = Some tcp_entry \<and>
   socket_answer refusing_os (AF_INET linux) (SOCK_STREAM linux) (p_proto tcp_entry) = (3, 0) \<and>
   (3::int) \<noteq> -1 \<and>
   resolver refusing_os ''localhost'' ''9090'' (tcphints linux tcp_entry) = (0, [addr6, addr4]) \<and>
   \<not> accepts refusing_os 3 0 addr6 \<and> \<not> accepts refusing_os 3 1 addr4 \<and>
   fst (tcpdial linux refusing_os (entry 0 7) ''localhost'' ''9090'') = 107 \<and>
   errno (snd (tcpdial linux refusing_os (entry 0 7) ''localhost'' ''9090'')) = 107 \<and>
   filter is_Connect (trace (snd (tcpdial linux refusing_os (entry 0 7) ''localhost'' ''9090''))) =
     [Connect 3 (ai_addr addr6) 28 (-1), Connect 3 (ai_addr addr4) 16 (-1)]"
proof -
  have h1: "protocols refusing_os ''tcp'' = Some tcp_entry"
    by (simp add: refusing_os_def localhost_os_def)
  have h2: "socket_answer refusing_os (AF_INET linux) (SOCK_STREAM linux) (p_proto tcp_entry)
              = (3, 0)"
    by (simp add: refusing_os_def localhost_os_def)
  have h3: "(3::int) \<noteq> -1" by simp
  have h4: "resolver refusing_os ''localhost'' ''9090'' (tcphints linux tcp_entry)
              = (0, [addr6, addr4])"
    by (simp add: refusing_os_def localhost_os_def)
  have h5: "\<forall>i<length [addr6, addr4]. \<not> accepts refusing_os 3 i ([addr6, addr4] ! i)"
    by (simp add: accepts_def refusing_os_def)
  from tcpdial_not_connected[OF h1 h2 h3 h4 h5, of 0 7]
  have "fst (tcpdial linux refusing_os (entry 0 7) ''localhost'' ''9090'') = 107 \<and>
   errno (snd (tcpdial linux refusing_os (entry 0 7) ''localhost'' ''9090'')) = 107 \<and>
   filter is_Connect (trace (snd (tcpdial linux refusing_os (entry 0 7) ''localhost'' ''9090''))) =
     [Connect 3 (ai_addr addr6) 28 (-1), Connect 3 (ai_addr addr4) 16 (-1)]"
    by (simp add: linux_def refusing_os_def addr6_def addr4_def)
  moreover have "\<not> accepts refusing_os 3 0 addr6 \<and> \<not> accepts refusing_os 3 1 addr4"
    by (simp add: accepts_def refusing_os_def)
  ultimately show ?thesis using h1 h2 h3 h4 by blast
qed

text \<open>
  C3. When the resolver is reached (protocol lookup and socket creation succeeded) and
  returns a failure code \<open>r \<noteq> 0\<close>, the value returned is also the value left in
  \<open>errno\<close>, and it is \<open>ENETUNREACH\<close> for \<open>EAI_AGAIN\<close>, \<open>ENETDOWN\<close> for \<open>EAI_FAIL\<close>,
  \<open>ENOMEM\<close> for \<open>EAI_MEMORY\<close>, \<open>EINVAL\<close> for \<open>EAI_NONAME\<close> and \<open>EAI_SERVICE\<close>, and \<open>r\<close>
  itself for every other code. The translation is applied to \<open>r\<close> once, never to its own
  result. The five \<open>EAI\<close> constants are the case labels of one \<open>switch\<close>, which C
  requires to be pairwise distinct.
\<close>

theorem tcpdial_resolver_failure:
  assumes "protocols os ''tcp'' = Some pe"
    and "socket_answer os (AF_INET pf) (SOCK_STREAM pf) (p_proto pe) = (fd, e')"
    and "fd \<noteq> -1"
    and "resolver os host port (tcphints pf pe) = (r, res)"
    and "r \<noteq> 0"
    and "distinct [EAI_AGAIN pf, EAI_FAIL pf, EAI_MEMORY pf, EAI_NONAME pf, EAI_SERVICE pf]"
  shows "errno (snd (tcpdial pf os (entry e c) host port)) =
           fst (tcpdial pf os (entry e c) host port) \<and>
         (r = EAI_AGAIN pf \<longrightarrow> fst (tcpdial pf os (entry e c) host port) = ENETUNREACH pf) \<and>
         (r = EAI_FAIL pf \<longrightarrow> fst (tcpdial pf os (entry e c) host port) = ENETDOWN pf) \<and>
         (r = EAI_MEMORY pf \<longrightarrow> fst (tcpdial pf os (entry e c) host port) = ENOMEM pf) \<and>
         (r = EAI_NONAME pf \<or> r = EAI_SERVICE pf \<longrightarrow>
            fst (tcpdial pf os (entry e c) host port) = EINVAL pf) \<and>
         (r \<notin> {EAI_AGAIN pf, EAI_FAIL pf, EAI_MEMORY pf, EAI_NONAME pf, EAI_SERVICE pf} \<longrightarrow>
            fst (tcpdial pf os (entry e c) host port) = r)"
proof -
  have ret: "tcpdial pf os (entry e c) host port =
     (eai_switch pf r,
      \<lparr>errno = eai_switch pf r, conn = fd,
       trace = prologue pf pe fd @ [Getaddrinfo host port (tcphints pf pe) r res]\<rparr>)"
    by (rule path_resolver_fails[OF assms(1-5)])
  from assms(6) have "EAI_AGAIN pf \<noteq> EAI_FAIL pf" "EAI_AGAIN pf \<noteq> EAI_MEMORY pf"
    "EAI_FAIL pf \<noteq> EAI_MEMORY pf" "EAI_AGAIN pf \<noteq> EAI_NONAME pf"
    "EAI_FAIL pf \<noteq> EAI_NONAME pf" "EAI_MEMORY pf \<noteq> EAI_NONAME pf"
    "EAI_AGAIN pf \<noteq> EAI_SERVICE pf" "EAI_FAIL pf \<noteq> EAI_SERVICE pf"
    "EAI_MEMORY pf \<noteq> EAI_SERVICE pf"
    by simp_all
  note d = this[THEN not_sym]
  have 1: "r = EAI_AGAIN pf \<longrightarrow> eai_switch pf r = ENETUNREACH pf"
    by (simp add: eai_switch_def)
  have 2: "r = EAI_FAIL pf \<longrightarrow> eai_switch pf r = ENETDOWN pf"
    using d by (simp add: eai_switch_def)
  have 3: "r = EAI_MEMORY pf \<longrightarrow> eai_switch pf r = ENOMEM pf"
    using d by (simp add: eai_switch_def)
  have 4: "r = EAI_NONAME pf \<or> r = EAI_SERVICE pf \<longrightarrow> eai_switch pf r = EINVAL pf"
    using d by (auto simp add: eai_switch_def)
  have 5: "r \<notin> {EAI_AGAIN pf, EAI_FAIL pf, EAI_MEMORY pf, EAI_NONAME pf, EAI_SERVICE pf} \<longrightarrow>
            eai_switch pf r = r"
    by (simp add: eai_switch_def)
  have f: "fst (tcpdial pf os (entry e c) host port) = eai_switch pf r"
    and g: "errno (snd (tcpdial pf os (entry e c) host port)) = eai_switch pf r"
    by (simp_all add: ret)
  show ?thesis unfolding f g using 1 2 3 4 5 by blast
qed

theorem tcpdial_resolver_failure_witness:
  "protocols localhost_os ''tcp'' = Some tcp_entry \<and>
   socket_answer localhost_os (AF_INET linux) (SOCK_STREAM linux) (p_proto tcp_entry) = (3, 0) \<and>
   (3::int) \<noteq> -1 \<and>
   resolver localhost_os ''nowhere'' ''9090'' (tcphints linux tcp_entry) = (EAI_NONAME linux, []) \<and>
   EAI_NONAME linux \<noteq> 0 \<and>
   distinct [EAI_AGAIN linux, EAI_FAIL linux, EAI_MEMORY linux, EAI_NONAME linux,
     EAI_SERVICE linux] \<and>
   fst (tcpdial linux localhost_os (entry 0 7) ''nowhere'' ''9090'') = 22 \<and>
   errno (snd (tcpdial linux localhost_os (entry 0 7) ''nowhere'' ''9090'')) = 22"
proof -
  have h1: "protocols localhost_os ''tcp'' = Some tcp_entry"
    by (simp add: localhost_os_def)
  have h2: "socket_answer localhost_os (AF_INET linux) (SOCK_STREAM linux) (p_proto tcp_entry)
              = (3, 0)"
    by (simp add: localhost_os_def)
  have h3: "(3::int) \<noteq> -1" by simp
  have h4: "resolver localhost_os ''nowhere'' ''9090'' (tcphints linux tcp_entry)
              = (EAI_NONAME linux, [])"
    by (simp add: localhost_os_def linux_def)
  have h5: "EAI_NONAME linux \<noteq> 0" by (simp add: linux_def)
  have h6: "distinct [EAI_AGAIN linux, EAI_FAIL linux, EAI_MEMORY linux, EAI_NONAME linux,
     EAI_SERVICE linux]"
    by (simp add: linux_def)
  from tcpdial_resolver_failure[OF h1 h2 h3 h4 h5 h6, of 0 7]
  have "fst (tcpdial linux localhost_os (entry 0 7) ''nowhere'' ''9090'') = 22 \<and>
        errno (snd (tcpdial linux localhost_os (entry 0 7) ''nowhere'' ''9090'')) = 22"
    by (simp add: linux_def)
  with h1 h2 h3 h4 h5 h6 show ?thesis by blast
qed

text \<open>
  C4, as stated: a failing call that created a socket closes it before it returns. It
  does not: on the concrete host below the resolver fails after descriptor 3 was
  created, the call returns an error, and the log holds no \<open>close\<close> of descriptor 3.
\<close>

theorem tcpdial_closes_on_failure_counterexample:
  "fst (tcpdial linux localhost_os (entry 0 7) ''nowhere'' ''9090'') \<noteq> 0 \<and>
   Socket 2 1 6 3 \<in> set (trace (snd (tcpdial linux localhost_os (entry 0 7) ''nowhere'' ''9090''))) \<and>
   Close 3 \<notin> set (trace (snd (tcpdial linux localhost_os (entry 0 7) ''nowhere'' ''9090'')))"
proof -
  have h1: "protocols localhost_os ''tcp'' = Some tcp_entry"
    by (simp add: localhost_os_def)
  have h2: "socket_answer localhost_os (AF_INET linux) (SOCK_STREAM linux) (p_proto tcp_entry)
              = (3, 0)"
    by (simp add: localhost_os_def)
  have h4: "resolver localhost_os ''nowhere'' ''9090'' (tcphints linux tcp_entry) = (-2, [])"
    by (simp add: localhost_os_def)
  have "tcpdial linux localhost_os (entry 0 7) ''nowhere'' ''9090'' =
     (eai_switch linux (-2),
      \<lparr>errno = eai_switch linux (-2), conn = 3,
       trace = prologue linux tcp_entry 3 @
         [Getaddrinfo ''nowhere'' ''9090'' (tcphints linux tcp_entry) (-2) []]\<rparr>)"
    by (rule path_resolver_fails[OF h1 h2 _ h4]) simp_all
  then show ?thesis
    by (simp add: eai_switch_def prologue_def linux_def tcp_entry_def)
qed

text \<open>
  C4, amended: a failing call that created a socket returns without closing it. The
  log holds the \<open>socket\<close> call that returned the descriptor and no \<open>close\<close> at all, and
  \<open>*conn\<close> holds the descriptor at return.
\<close>

theorem tcpdial_failure_leaves_socket_open:
  assumes "protocols os ''tcp'' = Some pe"
    and "socket_answer os (AF_INET pf) (SOCK_STREAM pf) (p_proto pe) = (fd, e')"
    and "fd \<noteq> -1"
    and "fst (tcpdial pf os (entry e c) host port) \<noteq> 0"
  shows "Socket (AF_INET pf) (SOCK_STREAM pf) (p_proto pe) fd
           \<in> set (trace (snd (tcpdial pf os (entry e c) host port))) \<and>
         (\<forall>ev\<in>set (trace (snd (tcpdial pf os (entry e c) host port))). \<not> is_Close ev) \<and>
         conn (snd (tcpdial pf os (entry e c) host port)) = fd"
proof -
  obtain r res where rs: "resolver os host port (tcphints pf pe) = (r, res)"
    by (cases "resolver os host port (tcphints pf pe)")
  from tcpdial_trace[OF assms(1,2) rs, of e c] obtain j where
    t: "trace (snd (tcpdial pf os (entry e c) host port)) =
           prologue pf pe fd @
           (if fd = -1 then []
            else Getaddrinfo host port (tcphints pf pe) r res #
                 (if r = 0 then map (attempt os fd) (take j (enumerate 0 res)) else []))"
    and c: "conn (snd (tcpdial pf os (entry e c) host port)) = fd"
    by blast
  show ?thesis
    unfolding t c using assms(3) by (auto simp add: prologue_def)
qed

theorem tcpdial_failure_leaves_socket_open_witness:
  "protocols refusing_os ''tcp'' = Some tcp_entry \<and>
   socket_answer refusing_os (AF_INET linux) (SOCK_STREAM linux) (p_proto tcp_entry) = (3, 0) \<and>
   (3::int) \<noteq> -1 \<and>
   fst (tcpdial linux refusing_os (entry 0 7) ''localhost'' ''9090'') \<noteq> 0 \<and>
   Socket 2 1 6 3 \<in> set (trace (snd (tcpdial linux refusing_os (entry 0 7) ''localhost'' ''9090''))) \<and>
   Close 3 \<notin> set (trace (snd (tcpdial linux refusing_os (entry 0 7) ''localhost'' ''9090''))) \<and>
   conn (snd (tcpdial linux refusing_os (entry 0 7) ''localhost'' ''9090'')) = 3"
proof -
  have h1: "protocols refusing_os ''tcp'' = Some tcp_entry"
    by (simp add: refusing_os_def localhost_os_def)
  have h2: "socket_answer refusing_os (AF_INET linux) (SOCK_STREAM linux) (p_proto tcp_entry)
              = (3, 0)"
    by (simp add: refusing_os_def localhost_os_def)
  have h3: "(3::int) \<noteq> -1" by simp
  have h4: "resolver refusing_os ''localhost'' ''9090'' (tcphints linux tcp_entry)
              = (0, [addr6, addr4])"
    by (simp add: refusing_os_def localhost_os_def)
  have h5: "\<forall>i<length [addr6, addr4]. \<not> accepts refusing_os 3 i ([addr6, addr4] ! i)"
    by (simp add: accepts_def refusing_os_def)
  have ret: "fst (tcpdial linux refusing_os (entry 0 7) ''localhost'' ''9090'') \<noteq> 0"
    unfolding path_all_fail[OF h1 h2 h3 h4 h5] by (simp add: linux_def)
  from tcpdial_failure_leaves_socket_open[OF h1 h2 h3 ret]
  have "Socket 2 1 6 3 \<in> set (trace (snd (tcpdial linux refusing_os (entry 0 7) ''localhost'' ''9090'')))"
    and "Close 3 \<notin> set (trace (snd (tcpdial linux refusing_os (entry 0 7) ''localhost'' ''9090'')))"
    and "conn (snd (tcpdial linux refusing_os (entry 0 7) ''localhost'' ''9090'')) = 3"
    by (auto simp add: linux_def tcp_entry_def)
  with h1 h2 h3 ret show ?thesis by blast
qed

text \<open>
  C5. \<open>tcpdial\<close> returns 0 exactly when a connection was established: when it returns 0,
  the log holds a \<open>connect\<close> call that returned 0, made on the descriptor that \<open>*conn\<close>
  holds at return; when it returns anything else (which covers the four failures:
  protocol lookup, socket creation, resolution, exhausted candidates), no \<open>connect\<close>
  call of the run returned 0. The return value is nonzero on the failure paths because
  the \<open>errno.h\<close> macros are nonzero and a failing \<open>socket\<close> leaves a nonzero \<open>errno\<close>,
  as ISO C and POSIX have it; these are the hypotheses.
\<close>

theorem tcpdial_zero_iff_connected:
  assumes "ENOPROTOOPT pf \<noteq> 0" and "ENETUNREACH pf \<noteq> 0" and "ENETDOWN pf \<noteq> 0"
    and "ENOMEM pf \<noteq> 0" and "EINVAL pf \<noteq> 0" and "ENOTCONN pf \<noteq> 0"
    and "\<And>pe e'. protocols os ''tcp'' = Some pe \<Longrightarrow>
           socket_answer os (AF_INET pf) (SOCK_STREAM pf) (p_proto pe) = (-1, e') \<Longrightarrow> e' \<noteq> 0"
  shows "(fst (tcpdial pf os (entry e c) host port) = 0 \<longrightarrow>
            (\<exists>ev\<in>set (trace (snd (tcpdial pf os (entry e c) host port))).
               established ev \<and> on_fd (conn (snd (tcpdial pf os (entry e c) host port))) ev)) \<and>
         (fst (tcpdial pf os (entry e c) host port) \<noteq> 0 \<longrightarrow>
            (\<forall>ev\<in>set (trace (snd (tcpdial pf os (entry e c) host port))). \<not> established ev))"
proof (cases rule: tcpdial_cases[where os = os and pf = pf and host = host and port = port])
  case no_protocol
  show ?thesis
    unfolding path_no_protocol[OF no_protocol] using assms(1) by simp
next
  case (socket_fails pe e')
  from assms(7)[OF socket_fails] show ?thesis
    unfolding path_socket_fails[OF socket_fails] by (simp add: prologue_def)
next
  case (resolver_fails pe fd e' r res)
  have "eai_switch pf r \<noteq> 0"
    using resolver_fails(5) assms(2-5) by (simp add: eai_switch_def)
  then show ?thesis
    unfolding path_resolver_fails[OF resolver_fails] by (simp add: prologue_def)
next
  case (all_fail pe fd e' cands)
  from none_established[OF all_fail(5)] show ?thesis
    unfolding path_all_fail[OF all_fail] using assms(6) by (simp add: prologue_def)
next
  case (accepted pe fd e' cands k)
  note p = path_accepted[OF accepted, of e c]
  let ?ev = "attempt os fd (k, cands ! k)"
  have "?ev \<in> set (trace (snd (tcpdial pf os (entry e c) host port)))"
    unfolding p(3) using last_established[OF accepted(5), of os fd] by simp
  moreover have "established ?ev" using accepted(6) by (simp add: accepts_def)
  moreover have "on_fd (conn (snd (tcpdial pf os (entry e c) host port))) ?ev"
    unfolding p(2) by simp
  ultimately show ?thesis using p(1) by blast
qed

theorem tcpdial_zero_iff_connected_witness:
  "ENOPROTOOPT linux \<noteq> 0 \<and> ENETUNREACH linux \<noteq> 0 \<and> ENETDOWN linux \<noteq> 0 \<and>
   ENOMEM linux \<noteq> 0 \<and> EINVAL linux \<noteq> 0 \<and> ENOTCONN linux \<noteq> 0 \<and>
   fst (socket_answer localhost_os (AF_INET linux) (SOCK_STREAM linux) (p_proto tcp_entry)) \<noteq> -1 \<and>
   fst (tcpdial linux localhost_os (entry 0 7) ''localhost'' ''9090'') = 0 \<and>
   (\<exists>ev\<in>set (trace (snd (tcpdial linux localhost_os (entry 0 7) ''localhost'' ''9090''))).
      established ev \<and> on_fd 3 ev) \<and>
   socket_answer no_socket_os (AF_INET linux) (SOCK_STREAM linux) (p_proto tcp_entry) = (-1, 13) \<and>
   fst (tcpdial linux no_socket_os (entry 0 7) ''localhost'' ''9090'') = 13 \<and>
   \<not> (\<exists>ev\<in>set (trace (snd (tcpdial linux no_socket_os (entry 0 7) ''localhost'' ''9090''))).
      established ev)"
proof -
  have z: "ENOPROTOOPT linux \<noteq> 0" "ENETUNREACH linux \<noteq> 0" "ENETDOWN linux \<noteq> 0"
    "ENOMEM linux \<noteq> 0" "EINVAL linux \<noteq> 0" "ENOTCONN linux \<noteq> 0"
    by (simp_all add: linux_def)
  have h1: "protocols localhost_os ''tcp'' = Some tcp_entry"
    by (simp add: localhost_os_def)
  have h2: "socket_answer localhost_os (AF_INET linux) (SOCK_STREAM linux) (p_proto tcp_entry)
              = (3, 0)"
    by (simp add: localhost_os_def)
  have h4: "resolver localhost_os ''localhost'' ''9090'' (tcphints linux tcp_entry)
              = (0, [addr6, addr4])"
    by (simp add: localhost_os_def)
  have a0: "\<forall>i<1. \<not> accepts localhost_os 3 i ([addr6, addr4] ! i)"
    by (simp add: accepts_def localhost_os_def addr6_def addr4_def)
  have a1: "accepts localhost_os 3 1 ([addr6, addr4] ! 1)"
    by (simp add: accepts_def localhost_os_def)
  have ok: "fst (tcpdial linux localhost_os (entry 0 7) ''localhost'' ''9090'') = 0"
    and cn: "conn (snd (tcpdial linux localhost_os (entry 0 7) ''localhost'' ''9090'')) = 3"
    using path_accepted(1,2)[OF h1 h2 _ h4 _ a1 a0, of 0 7] by simp_all
  have s1: "\<And>pe e'. protocols localhost_os ''tcp'' = Some pe \<Longrightarrow>
      socket_answer localhost_os (AF_INET linux) (SOCK_STREAM linux) (p_proto pe) = (-1, e') \<Longrightarrow>
      e' \<noteq> 0"
    by (simp add: localhost_os_def)
  from tcpdial_zero_iff_connected[of linux localhost_os 0 7 "''localhost''" "''9090''", OF z s1] ok cn
  have w1: "\<exists>ev\<in>set (trace (snd (tcpdial linux localhost_os (entry 0 7) ''localhost'' ''9090''))).
      established ev \<and> on_fd 3 ev"
    by simp
  have g1: "protocols no_socket_os ''tcp'' = Some tcp_entry"
    by (simp add: no_socket_os_def localhost_os_def)
  have g2: "socket_answer no_socket_os (AF_INET linux) (SOCK_STREAM linux) (p_proto tcp_entry)
              = (-1, 13)"
    by (simp add: no_socket_os_def localhost_os_def)
  have ret: "fst (tcpdial linux no_socket_os (entry 0 7) ''localhost'' ''9090'') = 13"
    unfolding path_socket_fails[OF g1 g2] by simp
  have s2: "\<And>pe e'. protocols no_socket_os ''tcp'' = Some pe \<Longrightarrow>
      socket_answer no_socket_os (AF_INET linux) (SOCK_STREAM linux) (p_proto pe) = (-1, e') \<Longrightarrow>
      e' \<noteq> 0"
    by (simp add: no_socket_os_def localhost_os_def)
  from tcpdial_zero_iff_connected[of linux no_socket_os 0 7 "''localhost''" "''9090''", OF z s2] ret
  have w2: "\<not> (\<exists>ev\<in>set (trace (snd (tcpdial linux no_socket_os (entry 0 7) ''localhost'' ''9090''))).
      established ev)"
    by simp
  from z h2 ok w1 g2 ret w2 show ?thesis by simp
qed

text \<open>
  C7, as stated: every call creates exactly one socket. It does not: on a host whose
  protocol database has no \<open>tcp\<close> entry the call returns before line 97, and the log
  holds no \<open>socket\<close> call.
\<close>

theorem tcpdial_one_socket_counterexample:
  "filter is_Socket
     (trace (snd (tcpdial linux no_protocols_os (entry 0 7) ''localhost'' ''9090''))) = [] \<and>
   length (filter is_Socket
     (trace (snd (tcpdial linux no_protocols_os (entry 0 7) ''localhost'' ''9090'')))) \<noteq> 1"
proof -
  have h: "protocols no_protocols_os ''tcp'' = None"
    by (simp add: no_protocols_os_def)
  show ?thesis unfolding path_no_protocol[OF h] by simp
qed

text \<open>
  C7, amended: a call makes no \<open>socket\<close> call when the protocol lookup fails and exactly
  one when it succeeds, so it creates at most one socket. It never closes or recreates
  that socket: the log holds no \<open>close\<close>, and every \<open>connect\<close> call of the run is made on
  the descriptor that the one \<open>socket\<close> call returned.
\<close>

theorem tcpdial_single_socket:
  "(protocols os ''tcp'' = None \<longrightarrow>
      filter is_Socket (trace (snd (tcpdial pf os (entry e c) host port))) = []) \<and>
   (\<forall>pe fd e'.
      protocols os ''tcp'' = Some pe \<longrightarrow>
      socket_answer os (AF_INET pf) (SOCK_STREAM pf) (p_proto pe) = (fd, e') \<longrightarrow>
        filter is_Socket (trace (snd (tcpdial pf os (entry e c) host port))) =
          [Socket (AF_INET pf) (SOCK_STREAM pf) (p_proto pe) fd] \<and>
        (\<forall>ev\<in>set (trace (snd (tcpdial pf os (entry e c) host port))). \<not> is_Close ev) \<and>
        (\<forall>ev\<in>set (trace (snd (tcpdial pf os (entry e c) host port))).
           is_Connect ev \<longrightarrow> on_fd fd ev))"
proof (intro conjI allI impI)
  assume "protocols os ''tcp'' = None"
  then show "filter is_Socket (trace (snd (tcpdial pf os (entry e c) host port))) = []"
    by (simp add: path_no_protocol)
next
  fix pe fd e'
  assume pe: "protocols os ''tcp'' = Some pe"
    and fd: "socket_answer os (AF_INET pf) (SOCK_STREAM pf) (p_proto pe) = (fd, e')"
  obtain r res where rs: "resolver os host port (tcphints pf pe) = (r, res)"
    by (cases "resolver os host port (tcphints pf pe)")
  from tcpdial_trace[OF pe fd rs, of e c] obtain j where
    t: "trace (snd (tcpdial pf os (entry e c) host port)) =
           prologue pf pe fd @
           (if fd = -1 then []
            else Getaddrinfo host port (tcphints pf pe) r res #
                 (if r = 0 then map (attempt os fd) (take j (enumerate 0 res)) else []))"
    by blast
  show "filter is_Socket (trace (snd (tcpdial pf os (entry e c) host port))) =
          [Socket (AF_INET pf) (SOCK_STREAM pf) (p_proto pe) fd]"
    unfolding t by (simp add: prologue_def)
  show "\<forall>ev\<in>set (trace (snd (tcpdial pf os (entry e c) host port))). \<not> is_Close ev"
    unfolding t by (auto simp add: prologue_def)
  show "\<forall>ev\<in>set (trace (snd (tcpdial pf os (entry e c) host port))).
           is_Connect ev \<longrightarrow> on_fd fd ev"
    unfolding t by (auto simp add: prologue_def)
qed

theorem tcpdial_single_socket_witness:
  "protocols no_protocols_os ''tcp'' = None \<and>
   filter is_Socket
     (trace (snd (tcpdial linux no_protocols_os (entry 0 7) ''localhost'' ''9090''))) = [] \<and>
   protocols localhost_os ''tcp'' = Some tcp_entry \<and>
   socket_answer localhost_os (AF_INET linux) (SOCK_STREAM linux) (p_proto tcp_entry) = (3, 0) \<and>
   filter is_Socket
     (trace (snd (tcpdial linux localhost_os (entry 0 7) ''localhost'' ''9090''))) =
     [Socket 2 1 6 3] \<and>
   Close 3 \<notin> set (trace (snd (tcpdial linux localhost_os (entry 0 7) ''localhost'' ''9090''))) \<and>
   Connect 4 (ai_addr addr4) 16 0
     \<notin> set (trace (snd (tcpdial linux localhost_os (entry 0 7) ''localhost'' ''9090'')))"
proof -
  have n: "protocols no_protocols_os ''tcp'' = None"
    by (simp add: no_protocols_os_def)
  have h1: "protocols localhost_os ''tcp'' = Some tcp_entry"
    by (simp add: localhost_os_def)
  have h2: "socket_answer localhost_os (AF_INET linux) (SOCK_STREAM linux) (p_proto tcp_entry)
              = (3, 0)"
    by (simp add: localhost_os_def)
  note a = tcpdial_single_socket[of no_protocols_os linux 0 7 "''localhost''" "''9090''"]
  note b = tcpdial_single_socket[of localhost_os linux 0 7 "''localhost''" "''9090''"]
  from a n have 1: "filter is_Socket
     (trace (snd (tcpdial linux no_protocols_os (entry 0 7) ''localhost'' ''9090''))) = []"
    by blast
  from b h1 h2 have 2: "filter is_Socket
       (trace (snd (tcpdial linux localhost_os (entry 0 7) ''localhost'' ''9090''))) =
       [Socket (AF_INET linux) (SOCK_STREAM linux) (p_proto tcp_entry) 3]"
    and 3: "\<forall>ev\<in>set (trace (snd (tcpdial linux localhost_os (entry 0 7) ''localhost'' ''9090''))).
       \<not> is_Close ev"
    and 4: "\<forall>ev\<in>set (trace (snd (tcpdial linux localhost_os (entry 0 7) ''localhost'' ''9090''))).
       is_Connect ev \<longrightarrow> on_fd 3 ev"
    by blast+
  from 2 have s2: "filter is_Socket
       (trace (snd (tcpdial linux localhost_os (entry 0 7) ''localhost'' ''9090''))) =
       [Socket 2 1 6 3]"
    by (simp add: linux_def tcp_entry_def)
  from 3 have s3: "Close 3
      \<notin> set (trace (snd (tcpdial linux localhost_os (entry 0 7) ''localhost'' ''9090'')))"
    by force
  from 4 have s4: "Connect 4 (ai_addr addr4) 16 0
      \<notin> set (trace (snd (tcpdial linux localhost_os (entry 0 7) ''localhost'' ''9090'')))"
    by force
  from n 1 h1 h2 s2 s3 s4 show ?thesis by blast
qed

text \<open>
  C8. When the resolver is reached (protocol lookup and socket creation succeeded), it
  is called exactly once, with the caller's host and port and with hints that are zero
  except for \<open>ai_family = AF_UNSPEC\<close>, \<open>ai_socktype = SOCK_STREAM\<close> and \<open>ai_protocol\<close> the
  protocol number of the \<open>tcp\<close> entry found in step 1. The candidates are then taken in
  the order of the resolver's chain, whatever their families: the \<open>connect\<close> calls are
  the attempts on the first \<open>j\<close> nodes of the chain.
\<close>

theorem tcpdial_resolution_request:
  assumes "protocols os ''tcp'' = Some pe"
    and "socket_answer os (AF_INET pf) (SOCK_STREAM pf) (p_proto pe) = (fd, e')"
    and "fd \<noteq> -1"
  shows "\<exists>r res j.
           resolver os host port
             \<lparr>ai_flags = 0, ai_family = AF_UNSPEC pf, ai_socktype = SOCK_STREAM pf,
              ai_protocol = p_proto pe, ai_addrlen = 0, ai_addr = None\<rparr> = (r, res) \<and>
           filter is_Getaddrinfo (trace (snd (tcpdial pf os (entry e c) host port))) =
             [Getaddrinfo host port
                \<lparr>ai_flags = 0, ai_family = AF_UNSPEC pf, ai_socktype = SOCK_STREAM pf,
                 ai_protocol = p_proto pe, ai_addrlen = 0, ai_addr = None\<rparr> r res] \<and>
           j \<le> length res \<and>
           filter is_Connect (trace (snd (tcpdial pf os (entry e c) host port))) =
             map (attempt os fd) (take j (enumerate 0 res))"
proof -
  obtain r res where rs: "resolver os host port (tcphints pf pe) = (r, res)"
    by (cases "resolver os host port (tcphints pf pe)")
  from tcpdial_trace[OF assms(1,2) rs, of e c] obtain j where j: "j \<le> length res"
    and t: "trace (snd (tcpdial pf os (entry e c) host port)) =
           prologue pf pe fd @
           (if fd = -1 then []
            else Getaddrinfo host port (tcphints pf pe) r res #
                 (if r = 0 then map (attempt os fd) (take j (enumerate 0 res)) else []))"
    by blast
  have g: "filter is_Getaddrinfo (trace (snd (tcpdial pf os (entry e c) host port))) =
             [Getaddrinfo host port (tcphints pf pe) r res]"
    unfolding t using assms(3) by (simp add: prologue_def)
  show ?thesis
  proof (cases "r = 0")
    case True
    have "filter is_Connect (trace (snd (tcpdial pf os (entry e c) host port))) =
            map (attempt os fd) (take j (enumerate 0 res))"
      unfolding t using assms(3) True by (simp add: prologue_def)
    with rs g j show ?thesis unfolding tcphints_def by blast
  next
    case False
    have "filter is_Connect (trace (snd (tcpdial pf os (entry e c) host port))) =
            map (attempt os fd) (take 0 (enumerate 0 res))"
      unfolding t using assms(3) False by (simp add: prologue_def)
    with rs g show ?thesis unfolding tcphints_def by blast
  qed
qed

theorem tcpdial_resolution_request_witness:
  "protocols localhost_os ''tcp'' = Some tcp_entry \<and>
   socket_answer localhost_os (AF_INET linux) (SOCK_STREAM linux) (p_proto tcp_entry) = (3, 0) \<and>
   (3::int) \<noteq> -1 \<and>
   filter is_Getaddrinfo
     (trace (snd (tcpdial linux localhost_os (entry 0 7) ''localhost'' ''9090''))) =
     [Getaddrinfo ''localhost'' ''9090''
        \<lparr>ai_flags = 0, ai_family = 0, ai_socktype = 1, ai_protocol = 6, ai_addrlen = 0,
         ai_addr = None\<rparr> 0 [addr6, addr4]]"
proof -
  have h1: "protocols localhost_os ''tcp'' = Some tcp_entry"
    by (simp add: localhost_os_def)
  have h2: "socket_answer localhost_os (AF_INET linux) (SOCK_STREAM linux) (p_proto tcp_entry)
              = (3, 0)"
    by (simp add: localhost_os_def)
  have h3: "(3::int) \<noteq> -1" by simp
  from tcpdial_resolution_request[OF h1 h2 h3, of "''localhost''" "''9090''" 0 7]
  obtain r res where
    rs: "resolver localhost_os ''localhost'' ''9090''
             \<lparr>ai_flags = 0, ai_family = AF_UNSPEC linux, ai_socktype = SOCK_STREAM linux,
              ai_protocol = p_proto tcp_entry, ai_addrlen = 0, ai_addr = None\<rparr> = (r, res)"
    and g: "filter is_Getaddrinfo
        (trace (snd (tcpdial linux localhost_os (entry 0 7) ''localhost'' ''9090''))) =
             [Getaddrinfo ''localhost'' ''9090''
                \<lparr>ai_flags = 0, ai_family = AF_UNSPEC linux, ai_socktype = SOCK_STREAM linux,
                 ai_protocol = p_proto tcp_entry, ai_addrlen = 0, ai_addr = None\<rparr> r res]"
    by blast
  from rs have "r = 0" "res = [addr6, addr4]"
    by (simp_all add: localhost_os_def)
  with g have "filter is_Getaddrinfo
     (trace (snd (tcpdial linux localhost_os (entry 0 7) ''localhost'' ''9090''))) =
     [Getaddrinfo ''localhost'' ''9090''
        \<lparr>ai_flags = 0, ai_family = 0, ai_socktype = 1, ai_protocol = 6, ai_addrlen = 0,
         ai_addr = None\<rparr> 0 [addr6, addr4]]"
    by (simp add: linux_def tcp_entry_def)
  with h1 h2 h3 show ?thesis by blast
qed

text \<open>
  C9. In a call that finds the protocol entry, the one \<open>socket\<close> call has domain
  \<open>AF_INET\<close>, every resolver call is the one with \<open>ai_family = AF_UNSPEC\<close> in its hints,
  and the \<open>connect\<close> calls are the attempts on the first \<open>j\<close> nodes of the resolver's
  chain, each made on the descriptor that this \<open>AF_INET\<close> socket call returned, with the
  node's \<open>ai_addr\<close> and \<open>ai_addrlen\<close>. The family of a node plays no part: when the loop
  is reached, it stops only at the end of the chain or at a node that accepted.
\<close>

theorem tcpdial_inet_socket_for_all_candidates:
  assumes "protocols os ''tcp'' = Some pe"
    and "socket_answer os (AF_INET pf) (SOCK_STREAM pf) (p_proto pe) = (fd, e')"
    and "resolver os host port (tcphints pf pe) = (r, res)"
  shows "filter is_Socket (trace (snd (tcpdial pf os (entry e c) host port))) =
           [Socket (AF_INET pf) (SOCK_STREAM pf) (p_proto pe) fd] \<and>
         (\<forall>ev\<in>set (trace (snd (tcpdial pf os (entry e c) host port))).
            is_Getaddrinfo ev \<longrightarrow> ev = Getaddrinfo host port (tcphints pf pe) r res) \<and>
         ai_family (tcphints pf pe) = AF_UNSPEC pf \<and>
         (\<exists>j\<le>length res.
            filter is_Connect (trace (snd (tcpdial pf os (entry e c) host port))) =
              map (attempt os fd) (take j (enumerate 0 res)) \<and>
            (fd \<noteq> -1 \<and> r = 0 \<longrightarrow>
               j = length res \<or> 0 < j \<and> accepts os fd (j - 1) (res ! (j - 1))))"
proof -
  from tcpdial_trace[OF assms, of e c] obtain j where j: "j \<le> length res"
    "fd \<noteq> -1 \<and> r = 0 \<longrightarrow> j = length res \<or> 0 < j \<and> accepts os fd (j - 1) (res ! (j - 1))"
    and t: "trace (snd (tcpdial pf os (entry e c) host port)) =
           prologue pf pe fd @
           (if fd = -1 then []
            else Getaddrinfo host port (tcphints pf pe) r res #
                 (if r = 0 then map (attempt os fd) (take j (enumerate 0 res)) else []))"
    by blast
  have 1: "filter is_Socket (trace (snd (tcpdial pf os (entry e c) host port))) =
           [Socket (AF_INET pf) (SOCK_STREAM pf) (p_proto pe) fd]"
    unfolding t by (simp add: prologue_def)
  have 2: "\<forall>ev\<in>set (trace (snd (tcpdial pf os (entry e c) host port))).
            is_Getaddrinfo ev \<longrightarrow> ev = Getaddrinfo host port (tcphints pf pe) r res"
    unfolding t by (auto simp add: prologue_def)
  have 3: "ai_family (tcphints pf pe) = AF_UNSPEC pf"
    by (simp add: tcphints_def)
  have "\<exists>j'\<le>length res.
          filter is_Connect (trace (snd (tcpdial pf os (entry e c) host port))) =
            map (attempt os fd) (take j' (enumerate 0 res)) \<and>
          (fd \<noteq> -1 \<and> r = 0 \<longrightarrow>
             j' = length res \<or> 0 < j' \<and> accepts os fd (j' - 1) (res ! (j' - 1)))"
  proof (cases "fd \<noteq> -1 \<and> r = 0")
    case True
    then have "filter is_Connect (trace (snd (tcpdial pf os (entry e c) host port))) =
            map (attempt os fd) (take j (enumerate 0 res))"
      unfolding t by (simp add: prologue_def)
    with j show ?thesis by blast
  next
    case False
    then have "filter is_Connect (trace (snd (tcpdial pf os (entry e c) host port))) =
            map (attempt os fd) (take 0 (enumerate 0 res))"
      unfolding t by (auto simp add: prologue_def)
    with False show ?thesis by blast
  qed
  with 1 2 3 show ?thesis by blast
qed

theorem tcpdial_inet_socket_for_all_candidates_witness:
  "protocols localhost_os ''tcp'' = Some tcp_entry \<and>
   socket_answer localhost_os (AF_INET linux) (SOCK_STREAM linux) (p_proto tcp_entry) = (3, 0) \<and>
   resolver localhost_os ''localhost'' ''9090'' (tcphints linux tcp_entry) = (0, [addr6, addr4]) \<and>
   ai_family addr6 = 10 \<and> AF_INET linux = 2 \<and>
   filter is_Socket
     (trace (snd (tcpdial linux localhost_os (entry 0 7) ''localhost'' ''9090''))) =
     [Socket 2 1 6 3] \<and>
   hd (filter is_Connect
     (trace (snd (tcpdial linux localhost_os (entry 0 7) ''localhost'' ''9090'')))) =
     Connect 3 (ai_addr addr6) 28 (-1)"
proof -
  have h1: "protocols localhost_os ''tcp'' = Some tcp_entry"
    by (simp add: localhost_os_def)
  have h2: "socket_answer localhost_os (AF_INET linux) (SOCK_STREAM linux) (p_proto tcp_entry)
              = (3, 0)"
    by (simp add: localhost_os_def)
  have h4: "resolver localhost_os ''localhost'' ''9090'' (tcphints linux tcp_entry)
              = (0, [addr6, addr4])"
    by (simp add: localhost_os_def)
  have f: "ai_family addr6 = 10" "AF_INET linux = 2"
    by (simp_all add: addr6_def linux_def)
  from tcpdial_inet_socket_for_all_candidates[OF h1 h2 h4, of 0 7]
  obtain j where
    sk: "filter is_Socket
        (trace (snd (tcpdial linux localhost_os (entry 0 7) ''localhost'' ''9090''))) =
        [Socket (AF_INET linux) (SOCK_STREAM linux) (p_proto tcp_entry) 3]"
    and cn: "filter is_Connect
        (trace (snd (tcpdial linux localhost_os (entry 0 7) ''localhost'' ''9090''))) =
        map (attempt localhost_os 3) (take j (enumerate 0 [addr6, addr4]))"
    and j: "j = length [addr6, addr4] \<or>
        0 < j \<and> accepts localhost_os 3 (j - 1) ([addr6, addr4] ! (j - 1))"
    by auto
  from j have "0 < j" by auto
  then obtain j' where "j = Suc j'" by (cases j) simp_all
  with cn have "hd (filter is_Connect
     (trace (snd (tcpdial linux localhost_os (entry 0 7) ''localhost'' ''9090'')))) =
     Connect 3 (ai_addr addr6) 28 (-1)"
    by (simp add: localhost_os_def addr6_def addr4_def)
  moreover from sk have "filter is_Socket
     (trace (snd (tcpdial linux localhost_os (entry 0 7) ''localhost'' ''9090''))) =
     [Socket 2 1 6 3]"
    by (simp add: linux_def tcp_entry_def)
  ultimately show ?thesis using h1 h2 h4 f by blast
qed

text \<open>
  C10. When the protocol lookup fails, \<open>*conn\<close> is never written and holds the caller's
  value at return. When it succeeds, the log starts with the protocol lookup, the
  \<open>socket\<close> call and the store of its return value into \<open>*conn\<close>; everything after the
  store is a resolver call or a \<open>connect\<close> call; and \<open>*conn\<close> holds that value at return,
  on the success path and on every failure path alike.
\<close>

theorem tcpdial_conn_written_at_creation:
  "(protocols os ''tcp'' = None \<longrightarrow>
      conn (snd (tcpdial pf os (entry e c) host port)) = c \<and>
      (\<forall>ev\<in>set (trace (snd (tcpdial pf os (entry e c) host port))). \<not> is_Store_conn ev)) \<and>
   (\<forall>pe fd e'.
      protocols os ''tcp'' = Some pe \<longrightarrow>
      socket_answer os (AF_INET pf) (SOCK_STREAM pf) (p_proto pe) = (fd, e') \<longrightarrow>
        (\<exists>rest. trace (snd (tcpdial pf os (entry e c) host port)) =
             [Getprotobyname ''tcp'' (Some pe),
              Socket (AF_INET pf) (SOCK_STREAM pf) (p_proto pe) fd,
              Store_conn fd] @ rest \<and>
           (\<forall>ev\<in>set rest. is_Getaddrinfo ev \<or> is_Connect ev)) \<and>
        conn (snd (tcpdial pf os (entry e c) host port)) = fd)"
proof (intro conjI allI impI)
  assume n: "protocols os ''tcp'' = None"
  show "conn (snd (tcpdial pf os (entry e c) host port)) = c"
    by (simp add: path_no_protocol[OF n])
  show "\<forall>ev\<in>set (trace (snd (tcpdial pf os (entry e c) host port))). \<not> is_Store_conn ev"
    by (simp add: path_no_protocol[OF n])
next
  fix pe fd e'
  assume pe: "protocols os ''tcp'' = Some pe"
    and fd: "socket_answer os (AF_INET pf) (SOCK_STREAM pf) (p_proto pe) = (fd, e')"
  obtain r res where rs: "resolver os host port (tcphints pf pe) = (r, res)"
    by (cases "resolver os host port (tcphints pf pe)")
  from tcpdial_trace[OF pe fd rs, of e c] obtain j where
    t: "trace (snd (tcpdial pf os (entry e c) host port)) =
           prologue pf pe fd @
           (if fd = -1 then []
            else Getaddrinfo host port (tcphints pf pe) r res #
                 (if r = 0 then map (attempt os fd) (take j (enumerate 0 res)) else []))"
    and cn: "conn (snd (tcpdial pf os (entry e c) host port)) = fd"
    by blast
  let ?rest = "if fd = -1 then []
            else Getaddrinfo host port (tcphints pf pe) r res #
                 (if r = 0 then map (attempt os fd) (take j (enumerate 0 res)) else [])"
  have "\<forall>ev\<in>set ?rest. is_Getaddrinfo ev \<or> is_Connect ev"
    by auto
  with t show "\<exists>rest. trace (snd (tcpdial pf os (entry e c) host port)) =
             [Getprotobyname ''tcp'' (Some pe),
              Socket (AF_INET pf) (SOCK_STREAM pf) (p_proto pe) fd,
              Store_conn fd] @ rest \<and>
           (\<forall>ev\<in>set rest. is_Getaddrinfo ev \<or> is_Connect ev)"
    unfolding prologue_def by blast
  from cn show "conn (snd (tcpdial pf os (entry e c) host port)) = fd" .
qed

theorem tcpdial_conn_written_at_creation_witness:
  "protocols no_protocols_os ''tcp'' = None \<and>
   conn (snd (tcpdial linux no_protocols_os (entry 0 7) ''localhost'' ''9090'')) = 7 \<and>
   Store_conn 7
     \<notin> set (trace (snd (tcpdial linux no_protocols_os (entry 0 7) ''localhost'' ''9090''))) \<and>
   protocols localhost_os ''tcp'' = Some tcp_entry \<and>
   socket_answer localhost_os (AF_INET linux) (SOCK_STREAM linux) (p_proto tcp_entry) = (3, 0) \<and>
   fst (tcpdial linux localhost_os (entry 0 7) ''nowhere'' ''9090'') = 22 \<and>
   conn (snd (tcpdial linux localhost_os (entry 0 7) ''nowhere'' ''9090'')) = 3 \<and>
   take 3 (trace (snd (tcpdial linux localhost_os (entry 0 7) ''nowhere'' ''9090''))) =
     [Getprotobyname ''tcp'' (Some tcp_entry), Socket 2 1 6 3, Store_conn 3]"
proof -
  have n: "protocols no_protocols_os ''tcp'' = None"
    by (simp add: no_protocols_os_def)
  have h1: "protocols localhost_os ''tcp'' = Some tcp_entry"
    by (simp add: localhost_os_def)
  have h2: "socket_answer localhost_os (AF_INET linux) (SOCK_STREAM linux) (p_proto tcp_entry)
              = (3, 0)"
    by (simp add: localhost_os_def)
  have h4: "resolver localhost_os ''nowhere'' ''9090'' (tcphints linux tcp_entry) = (-2, [])"
    by (simp add: localhost_os_def)
  have "tcpdial linux localhost_os (entry 0 7) ''nowhere'' ''9090'' =
     (eai_switch linux (-2),
      \<lparr>errno = eai_switch linux (-2), conn = 3,
       trace = prologue linux tcp_entry 3 @
         [Getaddrinfo ''nowhere'' ''9090'' (tcphints linux tcp_entry) (-2) []]\<rparr>)"
    by (rule path_resolver_fails[OF h1 h2 _ h4]) simp_all
  then have ret: "fst (tcpdial linux localhost_os (entry 0 7) ''nowhere'' ''9090'') = 22"
    by (simp add: eai_switch_def linux_def)
  note a = tcpdial_conn_written_at_creation[of no_protocols_os linux 0 7 "''localhost''" "''9090''"]
  note b = tcpdial_conn_written_at_creation[of localhost_os linux 0 7 "''nowhere''" "''9090''"]
  from a n have 1: "conn (snd (tcpdial linux no_protocols_os (entry 0 7) ''localhost'' ''9090'')) = 7"
    and 2: "\<forall>ev\<in>set (trace (snd (tcpdial linux no_protocols_os (entry 0 7) ''localhost'' ''9090''))).
       \<not> is_Store_conn ev"
    by blast+
  from 2 have s2: "Store_conn 7
     \<notin> set (trace (snd (tcpdial linux no_protocols_os (entry 0 7) ''localhost'' ''9090'')))"
    by force
  from b h1 h2 obtain rest where
    3: "trace (snd (tcpdial linux localhost_os (entry 0 7) ''nowhere'' ''9090'')) =
         [Getprotobyname ''tcp'' (Some tcp_entry),
          Socket (AF_INET linux) (SOCK_STREAM linux) (p_proto tcp_entry) 3,
          Store_conn 3] @ rest"
    and 4: "conn (snd (tcpdial linux localhost_os (entry 0 7) ''nowhere'' ''9090'')) = 3"
    by blast
  from 3 have s3: "take 3 (trace (snd (tcpdial linux localhost_os (entry 0 7) ''nowhere'' ''9090''))) =
     [Getprotobyname ''tcp'' (Some tcp_entry), Socket 2 1 6 3, Store_conn 3]"
    by (simp add: linux_def tcp_entry_def)
  from n 1 s2 h1 h2 ret 4 s3 show ?thesis by blast
qed

end
